theory Spec2Isabelle
  imports Complex_Main
begin

section \<open>Data model\<close>

text \<open>
  The development embeds the playback-control logic of \<^verbatim>\<open>src/pages/Game.tsx\<close> and the
  asset resolver endpoint \<^verbatim>\<open>GET /api/audio-files/:celebrity\<close> of the backend.
  The two positions of a round are the TypeScript union \<^verbatim>\<open>'left' | 'right'\<close>.
\<close>

datatype side = Left | Right

text \<open>\<^verbatim>\<open>interface RoundSetup\<close> (Game.tsx, lines 81-89).\<close>

record Celebrity =
  name :: string
  photoUrl :: string

record RoundSetup =
  celebrity :: Celebrity
  realAudio :: string
  fakeAudio :: string
  realPosition :: side

text \<open>
  The part of an \<^verbatim>\<open>HTMLAudioElement\<close> the code reads or writes. \<open>loads\<close> counts the
  calls of \<^verbatim>\<open>load()\<close>. Of the platform only this much is assumed: \<^verbatim>\<open>play()\<close> clears the
  \<^verbatim>\<open>paused\<close> attribute at once (its promise settles later), \<^verbatim>\<open>pause()\<close> sets it, and
  \<^verbatim>\<open>load()\<close> sets it and rewinds.
\<close>

record audio =
  src :: string
  paused :: bool
  currentTime :: nat
  preload :: string
  loads :: nat

definition el_play :: "audio \<Rightarrow> audio" where
  "el_play a = a\<lparr>paused := False\<rparr>"

definition el_pause :: "audio \<Rightarrow> audio" where
  "el_pause a = a\<lparr>paused := True\<rparr>"

definition el_load :: "audio \<Rightarrow> audio" where
  "el_load a = a\<lparr>paused := True, currentTime := 0, loads := Suc (loads a)\<rparr>"

text \<open>\<^verbatim>\<open>new Audio()\<close>: a detached element with no source.\<close>

definition newAudio :: audio where
  "newAudio = \<lparr>src = [], paused = True, currentTime = 0, preload = ''metadata'', loads = 0\<rparr>"

section \<open>The next-round preloader\<close>

text \<open>
  \<^verbatim>\<open>useNextRoundPreloader\<close> (Game.tsx, lines 305-341). The detached \<^verbatim>\<open>Audio\<close> objects the
  hook has created so far live in \<open>objects\<close>, in creation order; a reference to one is its
  index, so \<open>preloadRefs\<close> is \<^verbatim>\<open>preloadRefs.current\<close>. \<open>cleanupSet\<close> records whether the last
  run of the effect returned its cleanup function (it returns none on the early exit of
  line 317).
\<close>

record preloader =
  objects :: "audio list"
  preloadRefs :: "nat list"
  cleanupSet :: bool

definition preloader0 :: preloader where
  "preloader0 = \<lparr>objects = [], preloadRefs = [], cleanupSet = False\<rparr>"

text \<open>The body of both \<^verbatim>\<open>forEach\<close> tear-down loops: \<^verbatim>\<open>el.src = ''; el.load()\<close>.\<close>

definition discard :: "audio \<Rightarrow> audio" where
  "discard a = el_load (a\<lparr>src := []\<rparr>)"

definition teardown :: "preloader \<Rightarrow> preloader" where
  "teardown p =
     p\<lparr>objects := foldl (\<lambda>h i. h[i := discard (h ! i)]) (objects p) (preloadRefs p),
       preloadRefs := []\<rparr>"

text \<open>The body of the creating \<^verbatim>\<open>forEach\<close> (lines 325-331).\<close>

definition pushNew :: "preloader \<Rightarrow> string \<Rightarrow> preloader" where
  "pushNew p s =
     p\<lparr>objects := objects p @ [newAudio\<lparr>preload := ''auto'', src := s\<rparr>],
       preloadRefs := preloadRefs p @ [length (objects p)]\<rparr>"

definition nextLeft :: "RoundSetup \<Rightarrow> string" where
  "nextLeft r = (if realPosition r = Left then realAudio r else fakeAudio r)"

definition nextRight :: "RoundSetup \<Rightarrow> string" where
  "nextRight r = (if realPosition r = Right then realAudio r else fakeAudio r)"

definition preloaderEffect :: "RoundSetup list \<Rightarrow> nat \<Rightarrow> preloader \<Rightarrow> preloader" where
  "preloaderEffect rs cur p =
     (let p1 = teardown p;
          nextIndex = cur + 1
      in if nextIndex \<ge> length rs then p1\<lparr>cleanupSet := False\<rparr>
         else let next = rs ! nextIndex
              in (foldl pushNew p1 [nextLeft next, nextRight next])\<lparr>cleanupSet := True\<rparr>)"

text \<open>The cleanup function the effect returns (lines 333-339).\<close>

definition preloaderCleanup :: "preloader \<Rightarrow> preloader" where
  "preloaderCleanup p = teardown p"

text \<open>
  What React does when a dependency of the effect (\<^verbatim>\<open>rounds\<close>, \<^verbatim>\<open>currentRound\<close>) has
  changed: the cleanup of the previous run, when there is one, and then the effect.
  \<open>afterCleanup\<close> is the state in between, \<open>tornDown\<close> the state between line 314 and
  line 316 of the new run.
\<close>

definition afterCleanup :: "preloader \<Rightarrow> preloader" where
  "afterCleanup p = (if cleanupSet p then preloaderCleanup p else p)"

definition tornDown :: "preloader \<Rightarrow> preloader" where
  "tornDown p = teardown (afterCleanup p)"

definition preloaderRerun :: "RoundSetup list \<Rightarrow> nat \<Rightarrow> preloader \<Rightarrow> preloader" where
  "preloaderRerun rs cur p = preloaderEffect rs cur (afterCleanup p)"

text \<open>A session: the successive values of the dependencies, oldest first.\<close>

fun preloadRun :: "(RoundSetup list \<times> nat) list \<Rightarrow> preloader \<Rightarrow> preloader" where
  "preloadRun [] p = p"
| "preloadRun ((rs, cur) # ds) p = preloadRun ds (preloaderRerun rs cur p)"

text \<open>The buffers that still hold a source, and the buffers one run creates.\<close>

definition live :: "preloader \<Rightarrow> audio list" where
  "live p = filter (\<lambda>a. src a \<noteq> []) (objects p)"

definition nextBuffers :: "RoundSetup list \<Rightarrow> nat \<Rightarrow> audio list" where
  "nextBuffers rs cur =
     (if cur + 1 \<ge> length rs then []
      else [newAudio\<lparr>preload := ''auto'', src := nextLeft (rs ! (cur + 1))\<rparr>,
            newAudio\<lparr>preload := ''auto'', src := nextRight (rs ! (cur + 1))\<rparr>])"

section \<open>The asset resolver endpoint\<close>

text \<open>
  \<^verbatim>\<open>GET /api/audio-files/:celebrity\<close> of the backend (lines 181-224). The disk is read
  through \<^verbatim>\<open>fs.existsSync\<close> and \<^verbatim>\<open>fs.readdirSync\<close> only: \<open>disk c n\<close> is what lies at
  \<^verbatim>\<open>public/audio/<c>/<n>\<close>, nothing (\<open>None\<close>), a plain file, or a directory with its entries.
  \<^verbatim>\<open>readdirSync\<close> of a plain file throws, which the handler answers with status 500.
\<close>

datatype fsnode = File | Dir "string list"

type_synonym disk = "string \<Rightarrow> string \<Rightarrow> fsnode option"

datatype reply =
    MissingCelebrity400
  | BadCategory400
  | NoFolder404 string string
  | NoWav404 string string
  | Failed500
  | FilePath string

fun isError :: "reply \<Rightarrow> bool" where
  "isError (FilePath p) = False"
| "isError r = True"

text \<open>\<^verbatim>\<open>path.basename\<close> (POSIX): trailing slashes go, then what follows the last slash stays.\<close>

definition basename :: "string \<Rightarrow> string" where
  "basename p =
     rev (takeWhile (\<lambda>c. c \<noteq> CHR ''/'') (dropWhile (\<lambda>c. c = CHR ''/'') (rev p)))"

text \<open>\<^verbatim>\<open>String.prototype.toLowerCase\<close> on ASCII, and \<^verbatim>\<open>endsWith\<close>.\<close>

definition toLowerChar :: "char \<Rightarrow> char" where
  "toLowerChar c =
     (case map_of (zip ''ABCDEFGHIJKLMNOPQRSTUVWXYZ'' ''abcdefghijklmnopqrstuvwxyz'') c of
        Some l \<Rightarrow> l
      | None \<Rightarrow> c)"

definition toLowerCase :: "string \<Rightarrow> string" where
  "toLowerCase s = map toLowerChar s"

definition endsWith :: "string \<Rightarrow> string \<Rightarrow> bool" where
  "endsWith s suf = (length suf \<le> length s \<and> drop (length s - length suf) s = suf)"

definition isWav :: "string \<Rightarrow> bool" where
  "isWav f = endsWith (toLowerCase f) ''.wav''"

text \<open>
  Lines 208-213. A query parameter is \<open>None\<close> when it is absent or not a string; an empty
  \<^verbatim>\<open>exclude\<close> is falsy and skipped as well.
\<close>

definition candidatesOf :: "string list \<Rightarrow> string option \<Rightarrow> string list" where
  "candidatesOf allFiles exclude =
     (case exclude of
        None \<Rightarrow> allFiles
      | Some ex \<Rightarrow>
          if ex = [] then allFiles
          else let brokenFilename = basename ex;
                   filtered = filter (\<lambda>f. f \<noteq> brokenFilename) allFiles
               in if length filtered > 0 then filtered else allFiles)"

text \<open>
  \<open>celeb\<close> is the route parameter \<^verbatim>\<open>:celebrity\<close>. \<open>u\<close> is the value of \<^verbatim>\<open>Math.random()\<close>, a number in \<open>[0, 1)\<close>; an index outside the array
  reads \<^verbatim>\<open>undefined\<close>, which the template prints as such.
\<close>

definition pick :: "real \<Rightarrow> string list \<Rightarrow> string" where
  "pick u candidates =
     (let k = nat \<lfloor>u * real (length candidates)\<rfloor>
      in if 0 \<le> u * real (length candidates) \<and> k < length candidates then candidates ! k
         else ''undefined'')"

definition audioFiles ::
  "disk \<Rightarrow> real \<Rightarrow> string \<Rightarrow> string option \<Rightarrow> string option \<Rightarrow> reply" where
  "audioFiles disk u celeb category exclude =
     (if celeb = [] then MissingCelebrity400
      else case category of
        None \<Rightarrow> BadCategory400
      | Some cat \<Rightarrow>
          if cat \<noteq> ''Real'' \<and> cat \<noteq> ''Cloned'' then BadCategory400
          else let safeCelebrity = basename celeb
               in case disk cat safeCelebrity of
                    None \<Rightarrow> NoFolder404 cat safeCelebrity
                  | Some File \<Rightarrow> Failed500
                  | Some (Dir entries) \<Rightarrow>
                      let allFiles = filter isWav entries
                      in if length allFiles = 0 then NoWav404 safeCelebrity cat
                         else let candidates = candidatesOf allFiles exclude;
                                  picked = pick u candidates
                              in FilePath (''/audio/'' @ cat @ ''/'' @ safeCelebrity @ ''/'' @ picked))"

section \<open>The game component\<close>

text \<open>
  \<^verbatim>\<open>interface RoundData\<close> (types/game.ts). The fields it shares by name with
  \<^verbatim>\<open>RoundSetup\<close> carry the suffix \<open>D\<close> here.
\<close>

record RoundData =
  roundNum :: nat
  celebrityD :: string
  realAudioD :: string
  fakeAudioD :: string
  realPositionD :: side
  userChoice :: side
  correct :: bool
  replayCountLeft :: nat
  replayCountRight :: nat
  timeSpent :: int

definition TOTAL_ROUNDS :: nat where
  "TOTAL_ROUNDS = 10"

definition MAX_AUDIO_RETRIES :: nat where
  "MAX_AUDIO_RETRIES = 3"

text \<open>
  What the component asks of the platform, in the order asked: a \<^verbatim>\<open>play()\<close> with the request
  id its continuation captured, a resolver request (side, captured \<^verbatim>\<open>wasPlaying\<close>,
  celebrity, category, \<^verbatim>\<open>exclude\<close>), the two timers of \<^verbatim>\<open>handleSelect\<close> with what their
  callbacks captured, and the submission of the outcome log.
\<close>

datatype call =
    Play side nat
  | Fetch side bool string string "string option"
  | ResultTimeout nat "RoundData list"
  | AdvanceTimeout
  | SubmitGame "RoundData list"

text \<open>
  The state of \<^verbatim>\<open>Game\<close>: its \<^verbatim>\<open>useState\<close> cells and \<^verbatim>\<open>useRef\<close> cells (lines 550-572), the
  four refs of \<^verbatim>\<open>useAudioFallback\<close> (lines 159-164), the preloader, and the calls made so
  far. A ref to an \<^verbatim>\<open><audio></audio>\<close> element is \<open>None\<close> while the element is not mounted.
  A handler reads the state as it is when it is called: React hands each event the
  closure of the latest render. The redirect of a visitor without a user id, the image
  fallback and the navigation to the results page are left out, and the rounds arrive
  already mapped from the backend's answer.
\<close>

record game =
  loading :: bool
  rounds :: "RoundSetup list"
  currentRound :: nat
  selected :: "side option"
  showResult :: bool
  isCorrect :: bool
  roundResults :: "RoundData list"
  playingLeft :: bool
  playingRight :: bool
  replayLeft :: nat
  replayRight :: nat
  roundStartTime :: int
  transitioning :: bool
  audioLeftBuffering :: bool
  audioRightBuffering :: bool
  audioLeftRef :: "audio option"
  audioRightRef :: "audio option"
  playRequestId :: nat
  retriesLeft :: nat
  retriesRight :: nat
  fallbackActiveLeft :: bool
  fallbackActiveRight :: bool
  nextPreload :: preloader
  calls :: "call list"

definition game0 :: game where
  "game0 =
     \<lparr>loading = True, rounds = [], currentRound = 0, selected = None, showResult = False,
      isCorrect = False, roundResults = [], playingLeft = False, playingRight = False,
      replayLeft = 0, replayRight = 0, roundStartTime = 0, transitioning = False,
      audioLeftBuffering = False, audioRightBuffering = False, audioLeftRef = None,
      audioRightRef = None, playRequestId = 0, retriesLeft = 0, retriesRight = 0,
      fallbackActiveLeft = False, fallbackActiveRight = False, nextPreload = preloader0,
      calls = []\<rparr>"

subsection \<open>Derived values (lines 639-665)\<close>

text \<open>\<^verbatim>\<open>rounds[currentRound] ?? null\<close>.\<close>

definition roundOf :: "game \<Rightarrow> RoundSetup option" where
  "roundOf s = (if currentRound s < length (rounds s) then Some (rounds s ! currentRound s) else None)"

definition leftAudio :: "game \<Rightarrow> string" where
  "leftAudio s = (case roundOf s of None \<Rightarrow> [] | Some r \<Rightarrow> nextLeft r)"

definition rightAudio :: "game \<Rightarrow> string" where
  "rightAudio s = (case roundOf s of None \<Rightarrow> [] | Some r \<Rightarrow> nextRight r)"

definition disabled :: "game \<Rightarrow> bool" where
  "disabled s = (selected s \<noteq> None \<or> transitioning s)"

subsection \<open>The selections \<^verbatim>\<open>side === 'left' ? ... : ...\<close>\<close>

definition other :: "side \<Rightarrow> side" where
  "other sd = (if sd = Left then Right else Left)"

definition audioRef :: "side \<Rightarrow> game \<Rightarrow> audio option" where
  "audioRef sd s = (if sd = Left then audioLeftRef s else audioRightRef s)"

definition setRef :: "side \<Rightarrow> audio option \<Rightarrow> game \<Rightarrow> game" where
  "setRef sd v s = (if sd = Left then s\<lparr>audioLeftRef := v\<rparr> else s\<lparr>audioRightRef := v\<rparr>)"

text \<open>\<^verbatim>\<open>ref.current?.m()\<close>: the call happens when the element is mounted.\<close>

definition onRef :: "side \<Rightarrow> (audio \<Rightarrow> audio) \<Rightarrow> game \<Rightarrow> game" where
  "onRef sd f s = setRef sd (map_option f (audioRef sd s)) s"

definition playing :: "side \<Rightarrow> game \<Rightarrow> bool" where
  "playing sd s = (if sd = Left then playingLeft s else playingRight s)"

definition setPlaying :: "side \<Rightarrow> bool \<Rightarrow> game \<Rightarrow> game" where
  "setPlaying sd v s = (if sd = Left then s\<lparr>playingLeft := v\<rparr> else s\<lparr>playingRight := v\<rparr>)"

definition setBuffering :: "side \<Rightarrow> bool \<Rightarrow> game \<Rightarrow> game" where
  "setBuffering sd v s =
     (if sd = Left then s\<lparr>audioLeftBuffering := v\<rparr> else s\<lparr>audioRightBuffering := v\<rparr>)"

definition retries :: "side \<Rightarrow> game \<Rightarrow> nat" where
  "retries sd s = (if sd = Left then retriesLeft s else retriesRight s)"

definition setRetries :: "side \<Rightarrow> nat \<Rightarrow> game \<Rightarrow> game" where
  "setRetries sd v s = (if sd = Left then s\<lparr>retriesLeft := v\<rparr> else s\<lparr>retriesRight := v\<rparr>)"

definition fallbackActive :: "side \<Rightarrow> game \<Rightarrow> bool" where
  "fallbackActive sd s = (if sd = Left then fallbackActiveLeft s else fallbackActiveRight s)"

definition setFallbackActive :: "side \<Rightarrow> bool \<Rightarrow> game \<Rightarrow> game" where
  "setFallbackActive sd v s =
     (if sd = Left then s\<lparr>fallbackActiveLeft := v\<rparr> else s\<lparr>fallbackActiveRight := v\<rparr>)"

definition setCount :: "side \<Rightarrow> game \<Rightarrow> game" where
  "setCount sd s =
     (if sd = Left then s\<lparr>replayLeft := replayLeft s + 1\<rparr> else s\<lparr>replayRight := replayRight s + 1\<rparr>)"

definition emit :: "call \<Rightarrow> game \<Rightarrow> game" where
  "emit c s = s\<lparr>calls := calls s @ [c]\<rparr>"

subsection \<open>Play, pause and replay (lines 668-755)\<close>

definition stopAll :: "game \<Rightarrow> game" where
  "stopAll s = setPlaying Right False (setPlaying Left False (onRef Right el_pause (onRef Left el_pause s)))"

text \<open>
  The element's \<^verbatim>\<open>play()\<close> with the id freshly drawn from \<^verbatim>\<open>playRequestId\<close>; \<open>prep\<close> is what
  \<^verbatim>\<open>replay\<close> does to the element first (it rewinds).
\<close>

definition startPlay :: "side \<Rightarrow> (audio \<Rightarrow> audio) \<Rightarrow> game \<Rightarrow> game" where
  "startPlay sd prep s =
     (let i = playRequestId s + 1
      in emit (Play sd i) (onRef sd (el_play \<circ> prep) (s\<lparr>playRequestId := i\<rparr>)))"

definition togglePlay :: "side \<Rightarrow> game \<Rightarrow> game" where
  "togglePlay sd s =
     (if selected s \<noteq> None then s
      else case audioRef sd s of
             Some el \<Rightarrow>
               if paused el
               then startPlay sd id (setPlaying (other sd) False (onRef (other sd) el_pause s))
               else setPlaying sd False (onRef sd el_pause s)
           | None \<Rightarrow> setPlaying sd False s)"

definition replay :: "side \<Rightarrow> game \<Rightarrow> game" where
  "replay sd s =
     (if selected s \<noteq> None then s
      else let s1 = setPlaying (other sd) False (onRef (other sd) el_pause s);
               s2 = (if audioRef sd s1 \<noteq> None
                     then startPlay sd (\<lambda>el. el\<lparr>currentTime := 0\<rparr>) s1 else s1)
           in setCount sd s2)"

text \<open>
  The continuations of \<^verbatim>\<open>play()\<close>, with the \<^verbatim>\<open>id\<close> they captured: \<^verbatim>\<open>then\<close> (lines 706-708
  and 742-744) and \<^verbatim>\<open>catch\<close>, which only logs.
\<close>

definition playResolved :: "side \<Rightarrow> nat \<Rightarrow> game \<Rightarrow> game" where
  "playResolved sd i s = (if playRequestId s = i then setPlaying sd True s else s)"

definition playRejected :: "side \<Rightarrow> nat \<Rightarrow> game \<Rightarrow> game" where
  "playRejected sd i s = s"

subsection \<open>Selecting a side (lines 758-845)\<close>

text \<open>
  \<open>now\<close> is \<^verbatim>\<open>Date.now()\<close>, in milliseconds; \<^verbatim>\<open>Math.round\<close> of a thousandth of an integer
  rounds half up.
\<close>

definition handleSelect :: "side \<Rightarrow> int \<Rightarrow> game \<Rightarrow> game" where
  "handleSelect sd now s =
     (if selected s \<noteq> None \<or> transitioning s then s
      else case roundOf s of
             None \<Rightarrow> s
           | Some r \<Rightarrow>
               let s1 = stopAll (s\<lparr>selected := Some sd\<rparr>);
                   corr = (sd = realPosition r);
                   s2 = s1\<lparr>isCorrect := corr, showResult := True\<rparr>;
                   result =
                     \<lparr>roundNum = currentRound s + 1,
                      celebrityD = name (celebrity r),
                      realAudioD = realAudio r,
                      fakeAudioD = fakeAudio r,
                      realPositionD = realPosition r,
                      userChoice = sd,
                      correct = corr,
                      replayCountLeft = replayLeft s,
                      replayCountRight = replayRight s,
                      timeSpent = (now - roundStartTime s + 500) div 1000\<rparr>;
                   updatedResults = roundResults s @ [result]
               in emit (ResultTimeout (currentRound s) updatedResults)
                    (s2\<lparr>roundResults := updatedResults\<rparr>))"

text \<open>
  The callback of the first timer (lines 787-830), with the \<^verbatim>\<open>currentRound\<close> and
  \<^verbatim>\<open>updatedResults\<close> it captured, and the callback of the second (lines 820-828).
\<close>

definition resultTimer :: "nat \<Rightarrow> RoundData list \<Rightarrow> game \<Rightarrow> game" where
  "resultTimer cur results s =
     (if cur + 1 \<ge> TOTAL_ROUNDS then emit (SubmitGame results) s
      else emit AdvanceTimeout (s\<lparr>transitioning := True\<rparr>))"

definition advanceTimer :: "int \<Rightarrow> game \<Rightarrow> game" where
  "advanceTimer now s =
     s\<lparr>currentRound := currentRound s + 1, selected := None, showResult := False,
       replayLeft := 0, replayRight := 0, roundStartTime := now, transitioning := False\<rparr>"

subsection \<open>The fallback (lines 175-275)\<close>

text \<open>\<^verbatim>\<open>String.prototype.includes\<close>.\<close>

fun includesStr :: "string \<Rightarrow> string \<Rightarrow> bool" where
  "includesStr [] sub = (sub = [])"
| "includesStr (c # cs) sub = (take (length sub) (c # cs) = sub \<or> includesStr cs sub)"

text \<open>
  \<^verbatim>\<open>handleAudioError\<close> is an \<^verbatim>\<open>async\<close> function: each of its segments between two
  \<^verbatim>\<open>await\<close>s is a function here, returning the state and whether the handler is
  suspended again (\<open>True\<close>) or has returned. The first segment runs up to the \<^verbatim>\<open>fetch\<close>.
  The element's \<^verbatim>\<open>src\<close> is kept as assigned; the URL parser's percent-encoding of the
  \<^verbatim>\<open>exclude\<close> path is not modelled.
\<close>

definition handleAudioError :: "side \<Rightarrow> game \<Rightarrow> game \<times> bool" where
  "handleAudioError sd s =
     (if disabled s then (s, False)
      else if retries sd s \<ge> MAX_AUDIO_RETRIES then (s, False)
      else if fallbackActive sd s then (s, False)
      else let wasPlaying = playing sd s;
               s1 = setRetries sd (retries sd s + 1) (setFallbackActive sd True s);
               currentSrc = (case audioRef sd s of Some el \<Rightarrow> src el | None \<Rightarrow> []);
               category = (if includesStr currentSrc ''/Cloned/'' then ''Cloned'' else ''Real'');
               excludePath = currentSrc;
               celeb = (case roundOf s of Some r \<Rightarrow> name (celebrity r) | None \<Rightarrow> [])
           in (emit (Fetch sd wasPlaying celeb category
                       (if excludePath = [] then None else Some excludePath)) s1,
               True))"

text \<open>The \<^verbatim>\<open>finally\<close> block, and the \<^verbatim>\<open>catch\<close> block followed by it.\<close>

definition finish :: "side \<Rightarrow> game \<Rightarrow> game" where
  "finish sd s = setFallbackActive sd False s"

definition abandon :: "side \<Rightarrow> game \<Rightarrow> game" where
  "abandon sd s = finish sd (setPlaying sd False s)"

text \<open>
  What \<^verbatim>\<open>await fetch(...)\<close> and \<^verbatim>\<open>await res.json()\<close> gave: a rejection, a response that is
  not \<^verbatim>\<open>ok\<close>, or a body with its \<^verbatim>\<open>filePath\<close> (\<open>None\<close> when the field is missing).
\<close>

datatype fetched = Threw | NotOk nat | Body "string option"

text \<open>Lines 229-247, resumed with the captured \<^verbatim>\<open>wasPlaying\<close>.\<close>

definition fetchDone :: "side \<Rightarrow> bool \<Rightarrow> fetched \<Rightarrow> game \<Rightarrow> game \<times> bool" where
  "fetchDone sd wasPlaying r s =
     (case r of
        Threw \<Rightarrow> (abandon sd s, False)
      | NotOk code \<Rightarrow> (abandon sd s, False)
      | Body fp \<Rightarrow>
          (case fp of
             None \<Rightarrow> (abandon sd s, False)
           | Some filePath \<Rightarrow>
               if filePath = [] then (abandon sd s, False)
               else case audioRef sd s of
                      None \<Rightarrow> (finish sd s, False)
                    | Some el \<Rightarrow>
                        let s1 = setRef sd (Some (el_load ((el_pause el)\<lparr>src := filePath\<rparr>))) s
                        in if wasPlaying then (s1, True) else (finish sd s1, False)))"

text \<open>Lines 249-264: the swapped element fires \<^verbatim>\<open>canplay\<close> or \<^verbatim>\<open>error\<close>.\<close>

datatype loaded = BecamePlayable | FailedToLoad

definition replacementSettled :: "side \<Rightarrow> loaded \<Rightarrow> game \<Rightarrow> game \<times> bool" where
  "replacementSettled sd l s =
     (case l of
        BecamePlayable \<Rightarrow> (onRef sd el_play s, True)
      | FailedToLoad \<Rightarrow> (abandon sd s, False))"

text \<open>Lines 264-274: the \<^verbatim>\<open>play()\<close> of the resume resolved (\<open>True\<close>) or rejected.\<close>

definition resumeSettled :: "side \<Rightarrow> bool \<Rightarrow> game \<Rightarrow> game" where
  "resumeSettled sd ok s = (if ok then finish sd (setPlaying sd True s) else abandon sd s)"

text \<open>
  One failure event handled from its report to the handler's return, no other handler
  running in between: the outcomes of the three awaited operations are given.
\<close>

definition fallbackEpisode :: "side \<Rightarrow> fetched \<Rightarrow> loaded \<Rightarrow> bool \<Rightarrow> game \<Rightarrow> game" where
  "fallbackEpisode sd r l ok s =
     (case handleAudioError sd s of
        (s1, False) \<Rightarrow> s1
      | (s1, True) \<Rightarrow>
          (case fetchDone sd (playing sd s) r s1 of
             (s2, False) \<Rightarrow> s2
           | (s2, True) \<Rightarrow>
               (case replacementSettled sd l s2 of
                  (s3, False) \<Rightarrow> s3
                | (s3, True) \<Rightarrow> resumeSettled sd ok s3)))"

subsection \<open>Rendering and effects\<close>

text \<open>
  The two \<^verbatim>\<open><audio></audio>\<close> elements are rendered when the guard of line 850 lets the game
  through. React mounts them with their \<^verbatim>\<open>src\<close>, unmounts them, or rewrites a \<^verbatim>\<open>src\<close> whose
  prop changed (which restarts the element's loading).
\<close>

definition showsGame :: "game \<Rightarrow> bool" where
  "showsGame s = (\<not> loading s \<and> length (rounds s) \<noteq> 0 \<and> roundOf s \<noteq> None)"

definition srcProp :: "side \<Rightarrow> string \<Rightarrow> string \<Rightarrow> game \<Rightarrow> game" where
  "srcProp sd old new s =
     (if new = old then s
      else onRef sd (\<lambda>el. el\<lparr>src := new, paused := True, currentTime := 0\<rparr>) s)"

definition domUpdate :: "game \<Rightarrow> game \<Rightarrow> game" where
  "domUpdate old new =
     (if showsGame new
      then if showsGame old
           then srcProp Right (rightAudio old) (rightAudio new)
                  (srcProp Left (leftAudio old) (leftAudio new) new)
           else new\<lparr>audioLeftRef := Some (newAudio\<lparr>preload := ''auto'', src := leftAudio new\<rparr>),
                    audioRightRef := Some (newAudio\<lparr>preload := ''auto'', src := rightAudio new\<rparr>)\<rparr>
      else if showsGame old then new\<lparr>audioLeftRef := None, audioRightRef := None\<rparr>
      else new)"

text \<open>The effect on \<^verbatim>\<open>[currentRound]\<close> (lines 618-633).\<close>

definition roundChangeEffect :: "game \<Rightarrow> game" where
  "roundChangeEffect s =
     setBuffering Right False (setBuffering Left False
       (setPlaying Right False (setPlaying Left False
         (onRef Right (\<lambda>el. (el_pause el)\<lparr>currentTime := 0\<rparr>)
           (onRef Left (\<lambda>el. (el_pause el)\<lparr>currentTime := 0\<rparr>) s)))))"

text \<open>The effect on \<^verbatim>\<open>[leftAudio, rightAudio]\<close> (lines 167-172).\<close>

definition fallbackReset :: "game \<Rightarrow> game" where
  "fallbackReset s =
     s\<lparr>retriesLeft := 0, retriesRight := 0,
       fallbackActiveLeft := False, fallbackActiveRight := False\<rparr>"

text \<open>
  After a handler has run, React renders and runs the effects whose dependencies differ
  between the state before (\<open>old\<close>) and the state after (\<open>new\<close>), in the order of the
  hooks. \<open>fresh\<close> tells that \<^verbatim>\<open>rounds\<close> is a new array.
\<close>

definition commit :: "bool \<Rightarrow> game \<Rightarrow> game \<Rightarrow> game" where
  "commit fresh old new =
     (let s1 = domUpdate old new;
          s2 = (if currentRound new \<noteq> currentRound old then roundChangeEffect s1 else s1);
          s3 = (if fresh \<or> currentRound new \<noteq> currentRound old
                then s2\<lparr>nextPreload :=
                          preloaderRerun (rounds new) (currentRound new) (nextPreload s2)\<rparr>
                else s2)
      in if leftAudio new \<noteq> leftAudio old \<or> rightAudio new \<noteq> rightAudio old
         then fallbackReset s3 else s3)"

subsection \<open>Events\<close>

text \<open>
  Everything that can run a piece of the component's code: the user's clicks, the media
  events of the two elements, the settling of a promise and the firing of a timer. An
  event that resumes a continuation carries what the continuation captured.
\<close>

datatype event =
    RoundsLoaded "RoundSetup list"
  | TogglePlay side
  | Replay side
  | PlayResolved side nat
  | PlayRejected side nat
  | Select side int
  | ResultTimer nat "RoundData list"
  | AdvanceTimer int
  | AudioError side
  | FetchDone side bool fetched
  | ReplacementSettled side loaded
  | ResumeSettled side bool
  | Waiting side
  | CanPlay side
  | Ended side

fun handle :: "event \<Rightarrow> game \<Rightarrow> game" where
  "handle (RoundsLoaded rs) s = s\<lparr>rounds := rs, loading := False\<rparr>"
| "handle (TogglePlay sd) s = togglePlay sd s"
| "handle (Replay sd) s = replay sd s"
| "handle (PlayResolved sd i) s = playResolved sd i s"
| "handle (PlayRejected sd i) s = playRejected sd i s"
| "handle (Select sd now) s = handleSelect sd now s"
| "handle (ResultTimer cur results) s = resultTimer cur results s"
| "handle (AdvanceTimer now) s = advanceTimer now s"
| "handle (AudioError sd) s = fst (handleAudioError sd s)"
| "handle (FetchDone sd wasPlaying r) s = fst (fetchDone sd wasPlaying r s)"
| "handle (ReplacementSettled sd l) s = fst (replacementSettled sd l s)"
| "handle (ResumeSettled sd ok) s = resumeSettled sd ok s"
| "handle (Waiting sd) s = setBuffering sd True s"
| "handle (CanPlay sd) s = setBuffering sd False s"
| "handle (Ended sd) s = setPlaying sd False s"

fun freshRounds :: "event \<Rightarrow> bool" where
  "freshRounds (RoundsLoaded rs) = True"
| "freshRounds e = False"

definition step :: "event \<Rightarrow> game \<Rightarrow> game" where
  "step e s = commit (freshRounds e) s (handle e s)"

fun run :: "event list \<Rightarrow> game \<Rightarrow> game" where
  "run [] s = s"
| "run (e # es) s = run es (step e s)"

text \<open>The events that start a new round: they alone write \<^verbatim>\<open>rounds\<close> or \<^verbatim>\<open>currentRound\<close>.\<close>

fun withinRound :: "event \<Rightarrow> bool" where
  "withinRound (RoundsLoaded rs) = False"
| "withinRound (AdvanceTimer now) = False"
| "withinRound e = True"

section \<open>Observations\<close>

text \<open>The \<^verbatim>\<open>play()\<close> calls made so far, and the resolver requests made for one side.\<close>

fun isPlay :: "call \<Rightarrow> bool" where
  "isPlay (Play sd i) = True"
| "isPlay c = False"

definition playCalls :: "game \<Rightarrow> nat" where
  "playCalls s = length (filter isPlay (calls s))"

fun isFetchFor :: "side \<Rightarrow> call \<Rightarrow> bool" where
  "isFetchFor sd (Fetch sd' w c k x) = (sd' = sd)"
| "isFetchFor sd c = False"

definition fetchesFor :: "side \<Rightarrow> game \<Rightarrow> call list" where
  "fetchesFor sd s = filter (isFetchFor sd) (calls s)"

text \<open>The events that resume the fallback handler of a side, where its \<^verbatim>\<open>finally\<close> may run.\<close>

fun endsAttempt :: "side \<Rightarrow> event \<Rightarrow> bool" where
  "endsAttempt sd (FetchDone sd' w r) = (sd' = sd)"
| "endsAttempt sd (ReplacementSettled sd' l) = (sd' = sd)"
| "endsAttempt sd (ResumeSettled sd' ok) = (sd' = sd)"
| "endsAttempt sd e = False"

text \<open>The round's pair of sources is the same in two states.\<close>

definition sameSources :: "game \<Rightarrow> game \<Rightarrow> bool" where
  "sameSources s s' = (leftAudio s' = leftAudio s \<and> rightAudio s' = rightAudio s)"

text \<open>Every preload object that \<^verbatim>\<open>preloadRefs\<close> no longer holds has been discarded.\<close>

definition tidy :: "preloader \<Rightarrow> bool" where
  "tidy p = (\<forall>i<length (objects p). i \<notin> set (preloadRefs p) \<longrightarrow> src (objects p ! i) = [])"

text \<open>
  The \<^verbatim>\<open>.wav\<close> files of the folder the endpoint reads for a category and a celebrity;
  none when the folder is missing.
\<close>

definition wavsOf :: "disk \<Rightarrow> string \<Rightarrow> string \<Rightarrow> string list" where
  "wavsOf disk cat celeb =
     (case disk cat (basename celeb) of
        Some (Dir entries) \<Rightarrow> filter isWav entries
      | _ \<Rightarrow> [])"

section \<open>A sample session\<close>

definition obama :: RoundSetup where
  "obama =
     \<lparr>celebrity = \<lparr>name = ''Barack Obama'', photoUrl = ''/images/Barack Obama.jpg''\<rparr>,
      realAudio = ''/audio/Real/Barack Obama/a.wav'',
      fakeAudio = ''/audio/Cloned/Barack Obama/b.wav'',
      realPosition = Left\<rparr>"

definition watson :: RoundSetup where
  "watson =
     \<lparr>celebrity = \<lparr>name = ''Emma Watson'', photoUrl = ''/images/Emma Watson.jpg''\<rparr>,
      realAudio = ''/audio/Real/Emma Watson/c.wav'',
      fakeAudio = ''/audio/Cloned/Emma Watson/d.wav'',
      realPosition = Right\<rparr>"

definition freeman :: RoundSetup where
  "freeman =
     \<lparr>celebrity = \<lparr>name = ''Morgan Freeman'', photoUrl = ''/images/Morgan Freeman.jpg''\<rparr>,
      realAudio = ''/audio/Real/Morgan Freeman/e.wav'',
      fakeAudio = ''/audio/Cloned/Morgan Freeman/f.wav'',
      realPosition = Left\<rparr>"

text \<open>The game right after the rounds have arrived, in round 0 with both elements mounted.\<close>

definition started :: game where
  "started = step (RoundsLoaded [obama, watson]) game0"

text \<open>The left side has been asked to play; and its \<^verbatim>\<open>play()\<close> has resolved.\<close>

definition leftRequested :: game where
  "leftRequested = step (TogglePlay Left) started"

definition leftPlaying :: game where
  "leftPlaying = step (PlayResolved Left 1) leftRequested"

text \<open>The left side has failed and its resolver request is in flight.\<close>

definition leftFailing :: game where
  "leftFailing = step (AudioError Left) started"

text \<open>The right side has failed three times, each resolver request ending in an error.\<close>

definition exhausted :: game where
  "exhausted =
     run [AudioError Right, FetchDone Right False Threw,
          AudioError Right, FetchDone Right False (NotOk 404),
          AudioError Right, FetchDone Right False (Body None)] started"

text \<open>
  The left side was playing when it failed; its replacement has become playable and the
  handler has called \<^verbatim>\<open>play()\<close> to resume, the promise not settled yet. Then the right side
  is asked to play.
\<close>

definition resuming :: game where
  "resuming =
     run [AudioError Left,
          FetchDone Left True (Body (Some ''/audio/Real/Barack Obama/z.wav'')),
          ReplacementSettled Left BecamePlayable] leftPlaying"

definition rightTakesOver :: game where
  "rightTakesOver = step (TogglePlay Right) resuming"

text \<open>The left side has been selected in round 0.\<close>

definition decided :: game where
  "decided = step (Select Left 3400) started"

text \<open>A disk whose every folder holds the one file \<^verbatim>\<open>clip01.wav\<close> beside a text file.\<close>

definition oneClip :: disk where
  "oneClip cat n = Some (Dir [''clip01.wav'', ''notes.txt''])"

section \<open>Lemmas: the preloader\<close>

lemma discard_fold_length:
  "length (foldl (\<lambda>h i. h[i := discard (h ! i)]) h js) = length h"
  by (induction js arbitrary: h) simp_all

lemma discard_fold_src:
  "j < length h \<Longrightarrow>
   src (foldl (\<lambda>h i. h[i := discard (h ! i)]) h js ! j) = (if j \<in> set js then [] else src (h ! j))"
proof (induction js arbitrary: h)
  case Nil
  then show ?case by simp
next
  case (Cons i js)
  have "j < length (h[i := discard (h ! i)])" using Cons.prems by simp
  from Cons.IH[OF this] show ?case
    using Cons.prems by (auto simp: nth_list_update discard_def el_load_def)
qed

lemma live_teardown: "tidy p \<Longrightarrow> live (teardown p) = []"
  unfolding live_def teardown_def tidy_def
  by (auto simp: filter_empty_conv in_set_conv_nth discard_fold_length discard_fold_src)

lemma tidy_teardown: "tidy p \<Longrightarrow> tidy (teardown p)"
  unfolding teardown_def tidy_def
  by (auto simp: discard_fold_length discard_fold_src)

lemma tidy_pushNew: "tidy p \<Longrightarrow> tidy (pushNew p s)"
  unfolding pushNew_def tidy_def
  by (auto simp: nth_append less_Suc_eq)

lemma tidy_cleanupSet: "tidy (p\<lparr>cleanupSet := b\<rparr>) = tidy p"
  by (simp add: tidy_def)

lemma tidy_afterCleanup: "tidy p \<Longrightarrow> tidy (afterCleanup p)"
  by (simp add: afterCleanup_def preloaderCleanup_def tidy_teardown)

lemma tidy_effect: "tidy p \<Longrightarrow> tidy (preloaderEffect rs cur p)"
  by (simp add: preloaderEffect_def Let_def tidy_cleanupSet tidy_teardown tidy_pushNew)

lemma tidy_rerun: "tidy p \<Longrightarrow> tidy (preloaderRerun rs cur p)"
  by (simp add: preloaderRerun_def tidy_effect tidy_afterCleanup)

lemma tidy_run: "tidy p \<Longrightarrow> tidy (preloadRun ds p)"
  by (induction ds arbitrary: p) (auto simp: tidy_rerun)

lemma tidy0: "tidy preloader0"
  by (simp add: tidy_def preloader0_def)

lemma live_tornDown: "tidy p \<Longrightarrow> live (tornDown p) = []"
  by (simp add: tornDown_def live_teardown tidy_afterCleanup)

lemma objects_effect:
  "objects (preloaderEffect rs cur p) = objects (teardown p) @ nextBuffers rs cur"
  by (simp add: preloaderEffect_def nextBuffers_def Let_def pushNew_def)

lemma objects_rerun:
  "objects (preloaderRerun rs cur p) = objects (tornDown p) @ nextBuffers rs cur"
  by (simp add: preloaderRerun_def objects_effect tornDown_def)

lemma refs_effect:
  "preloadRefs (preloaderEffect rs cur p) =
     (if cur + 1 \<ge> length rs then [] else [length (objects p), Suc (length (objects p))])"
  by (simp add: preloaderEffect_def Let_def pushNew_def teardown_def discard_fold_length)

lemma live_rerun:
  "tidy p \<Longrightarrow> live (preloaderRerun rs cur p) = filter (\<lambda>a. src a \<noteq> []) (nextBuffers rs cur)"
  using live_tornDown[of p] by (simp add: live_def objects_rerun)

lemmas preload_eval = preloaderRerun_def preloaderEffect_def afterCleanup_def
  preloaderCleanup_def tornDown_def teardown_def pushNew_def preloader0_def newAudio_def
  discard_def el_load_def nextLeft_def nextRight_def nextBuffers_def live_def Let_def

section \<open>Lemmas: the resolver endpoint\<close>

lemma pick_single: "0 \<le> u \<Longrightarrow> u < 1 \<Longrightarrow> pick u [b] = b"
  by (simp add: pick_def Let_def)

lemma candidates_only: "basename ex = b \<Longrightarrow> candidatesOf [b] (Some ex) = [b]"
  by (auto simp: candidatesOf_def Let_def)

lemmas resolver_eval = audioFiles_def wavsOf_def basename_def isWav_def endsWith_def
  toLowerCase_def toLowerChar_def candidatesOf_def pick_def oneClip_def Let_def

section \<open>Lemmas: the game\<close>

lemmas side_defs = other_def audioRef_def setRef_def onRef_def playing_def setPlaying_def
  setBuffering_def retries_def setRetries_def fallbackActive_def setFallbackActive_def
  setCount_def emit_def

lemmas handler_defs = stopAll_def startPlay_def togglePlay_def replay_def playResolved_def
  playRejected_def handleSelect_def resultTimer_def advanceTimer_def handleAudioError_def
  finish_def abandon_def fetchDone_def replacementSettled_def resumeSettled_def

lemmas commit_defs = commit_def domUpdate_def srcProp_def showsGame_def roundChangeEffect_def
  fallbackReset_def leftAudio_def rightAudio_def roundOf_def

lemmas game_eval = step_def commit_defs preload_eval el_play_def el_pause_def disabled_def
  handler_defs side_defs game0_def MAX_AUDIO_RETRIES_def TOTAL_ROUNDS_def
  obama_def watson_def

lemma not_Left: "(sd \<noteq> Left) = (sd = Right)"
  by (cases sd) simp_all

text \<open>Within a round no handler writes what the rendering and the effects depend on.\<close>

lemma handle_frame:
  "withinRound e \<Longrightarrow>
     rounds (handle e s) = rounds s \<and> currentRound (handle e s) = currentRound s \<and>
     loading (handle e s) = loading s"
  by (cases e)
     (simp_all add: handler_defs side_defs Let_def
        split: option.splits fetched.splits loaded.splits)

lemma commit_same:
  "rounds s' = rounds s \<Longrightarrow> currentRound s' = currentRound s \<Longrightarrow> loading s' = loading s \<Longrightarrow>
   commit False s s' = s'"
  by (simp add: commit_defs Let_def)

lemma step_within:
  assumes "withinRound e"
  shows "step e s = handle e s"
proof -
  have "freshRounds e = False" using assms by (cases e) simp_all
  then show ?thesis using handle_frame[OF assms, of s] by (simp add: step_def commit_same)
qed

text \<open>The selection of a round stays until the round changes.\<close>

lemma selected_kept:
  "withinRound e \<Longrightarrow> selected s \<noteq> None \<Longrightarrow> selected (handle e s) \<noteq> None"
  by (cases e)
     (simp_all add: handler_defs side_defs Let_def
        split: option.splits fetched.splits loaded.splits)

lemma run_selected:
  "\<forall>e\<in>set es. withinRound e \<Longrightarrow> selected s \<noteq> None \<Longrightarrow> selected (run es s) \<noteq> None"
proof (induction es arbitrary: s)
  case Nil
  then show ?case by simp
next
  case (Cons e es)
  have w: "withinRound e" using Cons.prems(1) by simp
  have "selected (step e s) \<noteq> None"
    unfolding step_within[OF w] by (rule selected_kept[OF w Cons.prems(2)])
  moreover have "\<forall>e\<in>set es. withinRound e" using Cons.prems(1) by simp
  ultimately have "selected (run es (step e s)) \<noteq> None" by (rule Cons.IH[rotated])
  then show ?case by simp
qed

lemma select_ignored: "selected s \<noteq> None \<Longrightarrow> step (Select sd t) s = s"
  by (simp add: step_within handleSelect_def)

lemma select_accepted:
  "selected s = None \<Longrightarrow> \<not> transitioning s \<Longrightarrow> roundOf s = Some r \<Longrightarrow>
   selected (handleSelect sd t s) = Some sd \<and>
   butlast (roundResults (handleSelect sd t s)) = roundResults s \<and>
   correct (last (roundResults (handleSelect sd t s))) = (sd = realPosition r) \<and>
   userChoice (last (roundResults (handleSelect sd t s))) = sd"
  by (simp add: handleSelect_def stopAll_def side_defs Let_def)

text \<open>The retry counter within a round, and the requests of an exhausted side.\<close>

lemma handle_retries: "retries sd s \<le> retries sd (handle e s)"
  by (cases e)
     (simp_all add: handler_defs side_defs Let_def
        split: option.splits fetched.splits loaded.splits)

lemma no_fetch_when_exhausted:
  "MAX_AUDIO_RETRIES \<le> retries sd s \<Longrightarrow> fetchesFor sd (handle e s) = fetchesFor sd s"
  by (cases e)
     (auto simp add: fetchesFor_def handler_defs side_defs Let_def
        split: option.splits fetched.splits loaded.splits)

text \<open>The request id counts the \<^verbatim>\<open>play()\<close> calls.\<close>

lemma commit_token:
  "playRequestId (commit f s s') = playRequestId s' \<and> calls (commit f s s') = calls s'"
  by (simp add: commit_defs side_defs Let_def)

lemma handle_token:
  "playRequestId (handle e s) + playCalls s = playRequestId s + playCalls (handle e s)"
  by (cases e)
     (simp_all add: playCalls_def handler_defs side_defs Let_def
        split: option.splits fetched.splits loaded.splits)

lemma step_token:
  "playRequestId (step e s) + playCalls s = playRequestId s + playCalls (step e s)"
  using handle_token[of e s] by (simp add: step_def commit_token playCalls_def)

lemma run_token:
  "playRequestId (run es s) + playCalls s = playRequestId s + playCalls (run es s)"
proof (induction es arbitrary: s)
  case Nil
  then show ?case by simp
next
  case (Cons e es)
  from Cons.IH[of "step e s"] step_token[of e s] show ?case by simp
qed

lemma resolved_stale: "playRequestId s \<noteq> i \<Longrightarrow> playResolved sd i s = s"
  by (simp add: playResolved_def)

lemma resolved_current: "playRequestId s = i \<Longrightarrow> playing sd (playResolved sd i s)"
  by (simp add: playResolved_def side_defs)

lemma pause_keeps_calls:
  "audioRef sd s = Some el \<Longrightarrow> \<not> paused el \<Longrightarrow> playCalls (togglePlay sd s) = playCalls s"
  by (cases sd) (simp_all add: togglePlay_def playCalls_def side_defs)

text \<open>
  What the request id does guard. The resolution of a \<^verbatim>\<open>play()\<close> issued by \<^verbatim>\<open>togglePlay\<close> or
  \<^verbatim>\<open>replay\<close> with id \<open>i\<close> is applied when no \<^verbatim>\<open>play()\<close> has been issued by them since, on
  either side, and is dropped, the state left as it is, once one has. A \<^verbatim>\<open>togglePlay\<close>
  that pauses draws no id.
\<close>

lemma request_id_guard:
  assumes "playRequestId s = i"
  shows "(playCalls (run es s) = playCalls s \<longrightarrow> playing sd (playResolved sd i (run es s))) \<and>
         (playCalls (run es s) \<noteq> playCalls s \<longrightarrow> playResolved sd i (run es s) = run es s) \<and>
         (audioRef sd s = Some el \<and> \<not> paused el \<longrightarrow>
            playCalls (step (TogglePlay sd) s) = playCalls s \<and>
            playing sd (playResolved sd i (step (TogglePlay sd) s)))"
proof (intro conjI impI)
  assume "playCalls (run es s) = playCalls s"
  with run_token[of es s] assms have "playRequestId (run es s) = i" by simp
  then show "playing sd (playResolved sd i (run es s))" by (rule resolved_current)
next
  assume "playCalls (run es s) \<noteq> playCalls s"
  with run_token[of es s] assms have "playRequestId (run es s) \<noteq> i" by simp
  then show "playResolved sd i (run es s) = run es s" by (rule resolved_stale)
next
  assume el: "audioRef sd s = Some el \<and> \<not> paused el"
  then show same: "playCalls (step (TogglePlay sd) s) = playCalls s"
    using pause_keeps_calls[of sd s el] by (simp add: step_within)
  with step_token[of "TogglePlay sd" s] assms
  have "playRequestId (step (TogglePlay sd) s) = i" by simp
  then show "playing sd (playResolved sd i (step (TogglePlay sd) s))" by (rule resolved_current)
qed

text \<open>What the effects do to the fallback's bookkeeping.\<close>

lemma commit_sources:
  "rounds (commit f s s') = rounds s' \<and> currentRound (commit f s s') = currentRound s'"
  by (simp add: commit_defs side_defs Let_def)

lemma sameSources_step: "sameSources s (step e s) = sameSources s (handle e s)"
  by (simp add: sameSources_def step_def leftAudio_def rightAudio_def roundOf_def commit_sources)

lemma commit_retries:
  "retries sd (commit f s s') = (if sameSources s s' then retries sd s' else 0)"
  by (auto simp add: commit_def sameSources_def domUpdate_def srcProp_def roundChangeEffect_def
      fallbackReset_def side_defs Let_def)

lemma commit_active:
  "fallbackActive sd (commit f s s') = (sameSources s s' \<and> fallbackActive sd s')"
  by (auto simp add: commit_def sameSources_def domUpdate_def srcProp_def roundChangeEffect_def
      fallbackReset_def side_defs Let_def)

lemma handle_active:
  "fallbackActive sd s \<Longrightarrow> \<not> endsAttempt sd e \<Longrightarrow> fallbackActive sd (handle e s)"
  by (cases e; cases sd)
     (auto simp add: handler_defs side_defs Let_def not_Left
        split: option.splits fetched.splits loaded.splits if_splits)

text \<open>Every return of the fallback handler after its request passes through \<^verbatim>\<open>finally\<close>.\<close>

lemma attempt_end_clears:
  "(\<not> snd (fetchDone sd w r s) \<longrightarrow> \<not> fallbackActive sd (fst (fetchDone sd w r s))) \<and>
   (\<not> snd (replacementSettled sd l s) \<longrightarrow>
      \<not> fallbackActive sd (fst (replacementSettled sd l s))) \<and>
   \<not> fallbackActive sd (resumeSettled sd ok s)"
  by (cases sd)
     (simp_all add: fetchDone_def replacementSettled_def resumeSettled_def finish_def abandon_def
        side_defs Let_def split: option.splits fetched.splits loaded.splits)

text \<open>The preloader inside the game: only the effect of a round change writes it.\<close>

lemma handle_preload: "nextPreload (handle e s) = nextPreload s"
  by (cases e)
     (simp_all add: handler_defs side_defs Let_def
        split: option.splits fetched.splits loaded.splits)

lemma commit_preload:
  "nextPreload (commit f s s') =
     (if f \<or> currentRound s' \<noteq> currentRound s
      then preloaderRerun (rounds s') (currentRound s') (nextPreload s') else nextPreload s')"
  by (simp add: commit_def domUpdate_def srcProp_def roundChangeEffect_def fallbackReset_def
      side_defs Let_def)

lemma step_preload:
  "nextPreload (step e s) =
     (if freshRounds e \<or> currentRound (handle e s) \<noteq> currentRound s
      then preloaderRerun (rounds (handle e s)) (currentRound (handle e s)) (nextPreload s)
      else nextPreload s)"
  by (simp add: step_def commit_preload handle_preload)

lemma tidy_step: "tidy (nextPreload s) \<Longrightarrow> tidy (nextPreload (step e s))"
  by (simp add: step_preload tidy_rerun)

lemma tidy_game_run: "tidy (nextPreload s) \<Longrightarrow> tidy (nextPreload (run es s))"
  by (induction es arbitrary: s) (simp_all add: tidy_step)

lemma advance_preload:
  "nextPreload (step (AdvanceTimer t) s) =
     preloaderRerun (rounds s) (currentRound s + 1) (nextPreload s)"
  by (simp add: step_preload advanceTimer_def)

text \<open>The first segment of the fallback handler, when it goes through.\<close>

lemma episode_started:
  assumes "\<not> disabled s" "retries sd s < MAX_AUDIO_RETRIES" "\<not> fallbackActive sd s"
  shows "handleAudioError sd s =
           (emit (Fetch sd (playing sd s)
                    (case roundOf s of Some r \<Rightarrow> name (celebrity r) | None \<Rightarrow> [])
                    (if includesStr (case audioRef sd s of Some el \<Rightarrow> src el | None \<Rightarrow> [])
                          ''/Cloned/''
                     then ''Cloned'' else ''Real'')
                    (if (case audioRef sd s of Some el \<Rightarrow> src el | None \<Rightarrow> []) = [] then None
                     else Some (case audioRef sd s of Some el \<Rightarrow> src el | None \<Rightarrow> [])))
              (setRetries sd (retries sd s + 1) (setFallbackActive sd True s)), True)"
  using assms by (simp add: handleAudioError_def Let_def)

text \<open>The sample states, computed.\<close>

lemma started_eq:
  "started =
     \<lparr>loading = False, rounds = [obama, watson], currentRound = 0, selected = None,
      showResult = False, isCorrect = False, roundResults = [], playingLeft = False,
      playingRight = False, replayLeft = 0, replayRight = 0, roundStartTime = 0,
      transitioning = False, audioLeftBuffering = False, audioRightBuffering = False,
      audioLeftRef = Some \<lparr>src = ''/audio/Real/Barack Obama/a.wav'', paused = True,
                            currentTime = 0, preload = ''auto'', loads = 0\<rparr>,
      audioRightRef = Some \<lparr>src = ''/audio/Cloned/Barack Obama/b.wav'', paused = True,
                             currentTime = 0, preload = ''auto'', loads = 0\<rparr>,
      playRequestId = 0, retriesLeft = 0, retriesRight = 0,
      fallbackActiveLeft = False, fallbackActiveRight = False,
      nextPreload =
        \<lparr>objects = [\<lparr>src = ''/audio/Cloned/Emma Watson/d.wav'', paused = True,
                       currentTime = 0, preload = ''auto'', loads = 0\<rparr>,
                     \<lparr>src = ''/audio/Real/Emma Watson/c.wav'', paused = True,
                       currentTime = 0, preload = ''auto'', loads = 0\<rparr>],
         preloadRefs = [0, 1], cleanupSet = True\<rparr>,
      calls = []\<rparr>"
  by (simp add: started_def game_eval)

lemma leftRequested_eq:
  "leftRequested =
     started\<lparr>audioLeftRef := Some \<lparr>src = ''/audio/Real/Barack Obama/a.wav'', paused = False,
                                     currentTime = 0, preload = ''auto'', loads = 0\<rparr>,
             playRequestId := 1, calls := [Play Left 1]\<rparr>"
  by (simp add: leftRequested_def started_eq game_eval)

lemma leftPlaying_eq: "leftPlaying = leftRequested\<lparr>playingLeft := True\<rparr>"
  by (simp add: leftPlaying_def leftRequested_eq started_eq game_eval)

lemma resuming_eq:
  "resuming =
     leftPlaying\<lparr>audioLeftRef := Some \<lparr>src = ''/audio/Real/Barack Obama/z.wav'', paused = False,
                                         currentTime = 0, preload = ''auto'', loads = 1\<rparr>,
                 retriesLeft := 1, fallbackActiveLeft := True,
                 calls := [Play Left 1,
                           Fetch Left True ''Barack Obama'' ''Real''
                             (Some ''/audio/Real/Barack Obama/a.wav'')]\<rparr>"
  by (simp add: resuming_def leftPlaying_eq leftRequested_eq started_eq game_eval)

lemma rightTakesOver_eq:
  "rightTakesOver =
     resuming\<lparr>playingLeft := False,
              audioLeftRef := Some \<lparr>src = ''/audio/Real/Barack Obama/z.wav'', paused = True,
                                      currentTime = 0, preload = ''auto'', loads = 1\<rparr>,
              audioRightRef := Some \<lparr>src = ''/audio/Cloned/Barack Obama/b.wav'', paused = False,
                                       currentTime = 0, preload = ''auto'', loads = 0\<rparr>,
              playRequestId := 2,
              calls := [Play Left 1,
                        Fetch Left True ''Barack Obama'' ''Real''
                          (Some ''/audio/Real/Barack Obama/a.wav''),
                        Play Right 2]\<rparr>"
  by (simp add: rightTakesOver_def resuming_eq leftPlaying_eq leftRequested_eq started_eq
      game_eval)

section \<open>The claims\<close>

text \<open>
  C1. The claim: on one channel only the most recent \<^verbatim>\<open>play()\<close>/\<^verbatim>\<open>pause()\<close> call's resolution
  may change the playing state, and a stale resolution is dropped. The code breaks it at
  two inputs, evaluated here.

  A double click on the play button of the left side: the first \<^verbatim>\<open>togglePlay\<close> calls
  \<^verbatim>\<open>play()\<close> with request id 1, the second finds the element not paused, pauses it and
  marks the side as not playing, drawing no id. Had the promise been rejected, the side
  would stay not playing. When the promise resolves after the pause, the check of line
  707 passes and the side is marked as playing while its element is paused.

  The resume of the fallback: the left side has been swapped to its replacement and
  \<^verbatim>\<open>play()\<close> has been called to resume it (line 264). The right side is then asked to
  play, which pauses the left element, marks the left as not playing and draws request
  id 2. The resolution of the resume is applied all the same, since line 265 checks no
  id: the left side is marked as playing while its element is paused, and so is the
  right.
\<close>

theorem stale_resolution_applied:
  "calls leftRequested = [Play Left 1] \<and>
   calls (step (TogglePlay Left) leftRequested) = [Play Left 1] \<and>
   playRequestId (step (TogglePlay Left) leftRequested) = 1 \<and>
   map_option paused (audioRef Left (step (TogglePlay Left) leftRequested)) = Some True \<and>
   playing Left (step (TogglePlay Left) leftRequested) = False \<and>
   playing Left (step (PlayRejected Left 1) (step (TogglePlay Left) leftRequested)) = False \<and>
   playing Left (step (PlayResolved Left 1) (step (TogglePlay Left) leftRequested)) = True \<and>
   map_option paused
     (audioRef Left (step (PlayResolved Left 1) (step (TogglePlay Left) leftRequested))) =
     Some True \<and>
   map_option paused (audioRef Left resuming) = Some False \<and>
   calls rightTakesOver = calls resuming @ [Play Right 2] \<and>
   playRequestId rightTakesOver = 2 \<and>
   playing Left rightTakesOver = False \<and>
   map_option paused (audioRef Left rightTakesOver) = Some True \<and>
   playing Left (step (ResumeSettled Left True) rightTakesOver) = True \<and>
   map_option paused (audioRef Left (step (ResumeSettled Left True) rightTakesOver)) =
     Some True \<and>
   playing Right (step (PlayResolved Right 2) (step (ResumeSettled Left True) rightTakesOver)) =
     True \<and>
   playing Left (step (PlayResolved Right 2) (step (ResumeSettled Left True) rightTakesOver)) =
     True"
  by (simp add: rightTakesOver_eq resuming_eq leftPlaying_eq leftRequested_eq started_eq
      game_eval)

text \<open>
  C2, as amended. At every event: when the round's pair of sources changes, the retry
  counter of each side is zero and its single-flight flag is clear afterwards; when the
  pair stays, the retry counter is not lowered, so nothing else resets it; and the
  single-flight flag, when the pair stays, is cleared by nothing but an event that resumes
  the fallback handler of that side. That handler clears the flag in its \<^verbatim>\<open>finally\<close> block
  at the end of every attempt: whenever one of its resumed segments returns instead of
  suspending again, the flag is clear.
\<close>

theorem reset_only_on_source_change:
  "(\<not> sameSources s (step e s) \<longrightarrow>
      retries sd (step e s) = 0 \<and> \<not> fallbackActive sd (step e s)) \<and>
   (sameSources s (step e s) \<longrightarrow> retries sd s \<le> retries sd (step e s)) \<and>
   (sameSources s (step e s) \<and> fallbackActive sd s \<and> \<not> fallbackActive sd (step e s)
      \<longrightarrow> endsAttempt sd e) \<and>
   (\<not> snd (fetchDone sd w r s) \<longrightarrow> \<not> fallbackActive sd (fst (fetchDone sd w r s))) \<and>
   (\<not> snd (replacementSettled sd l s) \<longrightarrow>
      \<not> fallbackActive sd (fst (replacementSettled sd l s))) \<and>
   \<not> fallbackActive sd (resumeSettled sd ok s)"
proof -
  have r: "retries sd (step e s) =
             (if sameSources s (step e s) then retries sd (handle e s) else 0)"
    unfolding sameSources_step by (simp add: step_def commit_retries)
  have a: "fallbackActive sd (step e s) =
             (sameSources s (step e s) \<and> fallbackActive sd (handle e s))"
    unfolding sameSources_step by (simp add: step_def commit_active)
  have first: "(\<not> sameSources s (step e s) \<longrightarrow>
      retries sd (step e s) = 0 \<and> \<not> fallbackActive sd (step e s)) \<and>
   (sameSources s (step e s) \<longrightarrow> retries sd s \<le> retries sd (step e s)) \<and>
   (sameSources s (step e s) \<and> fallbackActive sd s \<and> \<not> fallbackActive sd (step e s)
      \<longrightarrow> endsAttempt sd e)"
    using handle_retries[of sd s e] handle_active[of sd s e] r a by auto
  from first attempt_end_clears[of sd w r s l ok] show ?thesis by blast
qed

theorem reset_only_on_source_change_witness:
  "retries Left leftFailing = 1 \<and> fallbackActive Left leftFailing \<and>
   \<not> sameSources leftFailing (step (AdvanceTimer 9000) leftFailing) \<and>
   retries Left (step (AdvanceTimer 9000) leftFailing) = 0 \<and>
   \<not> fallbackActive Left (step (AdvanceTimer 9000) leftFailing) \<and>
   sameSources leftFailing (step (TogglePlay Left) leftFailing) \<and>
   retries Left leftFailing \<le> retries Left (step (TogglePlay Left) leftFailing)"
proof -
  have before: "retries Left leftFailing = 1 \<and> fallbackActive Left leftFailing"
    by (simp add: leftFailing_def started_eq game_eval)
  have changed: "\<not> sameSources leftFailing (step (AdvanceTimer 9000) leftFailing)"
    by (simp add: leftFailing_def started_eq game_eval sameSources_def)
  have kept: "sameSources leftFailing (step (TogglePlay Left) leftFailing)"
    by (simp add: leftFailing_def started_eq game_eval sameSources_def)
  from reset_only_on_source_change[of leftFailing "AdvanceTimer 9000" Left]
       reset_only_on_source_change[of leftFailing "TogglePlay Left" Left]
       before changed kept
  show ?thesis by blast
qed

text \<open>
  C2 as stated fails for the single-flight flag: while the left side's resolver request
  is in flight the flag is set; the request comes back with status 404, the round's pair
  of sources is what it was, and the flag is clear again.
\<close>

theorem flag_cleared_within_round:
  "fallbackActive Left leftFailing \<and>
   sameSources leftFailing (step (FetchDone Left False (NotOk 404)) leftFailing) \<and>
   currentRound (step (FetchDone Left False (NotOk 404)) leftFailing) = currentRound leftFailing \<and>
   fallbackActive Left (step (FetchDone Left False (NotOk 404)) leftFailing) = False"
  by (simp add: leftFailing_def started_eq game_eval sameSources_def)

text \<open>
  C3. Once a side's retry counter has reached \<^verbatim>\<open>MAX_AUDIO_RETRIES\<close> (three attempts), then
  through every sequence of events that stays within the round no resolver request is
  made for that side, and a failure reported at the end of the sequence returns at once,
  leaving the state as it is.
\<close>

theorem exhausted_budget_no_request:
  assumes "MAX_AUDIO_RETRIES \<le> retries sd s" and "\<forall>e\<in>set es. withinRound e"
  shows "fetchesFor sd (run es s) = fetchesFor sd s \<and>
         handleAudioError sd (run es s) = (run es s, False)"
  using assms
proof (induction es arbitrary: s)
  case Nil
  then show ?case by (simp add: handleAudioError_def)
next
  case (Cons e es)
  have w: "withinRound e" using Cons.prems by simp
  have "MAX_AUDIO_RETRIES \<le> retries sd (step e s)"
    using handle_retries[of sd s e] Cons.prems(1) by (simp add: step_within[OF w])
  from Cons.IH[OF this] Cons.prems(2) show ?case
    using no_fetch_when_exhausted[OF Cons.prems(1), of e] by (simp add: step_within[OF w])
qed

theorem exhausted_budget_no_request_witness:
  "retries Right exhausted = 3 \<and> length (fetchesFor Right exhausted) = 3 \<and>
   MAX_AUDIO_RETRIES \<le> retries Right exhausted \<and>
   list_all withinRound [AudioError Right, TogglePlay Right, AudioError Right] \<and>
   fetchesFor Right (run [AudioError Right, TogglePlay Right, AudioError Right] exhausted) =
     fetchesFor Right exhausted \<and>
   handleAudioError Right (run [AudioError Right, TogglePlay Right, AudioError Right] exhausted) =
     (run [AudioError Right, TogglePlay Right, AudioError Right] exhausted, False)"
proof -
  have spent: "retries Right exhausted = 3 \<and> length (fetchesFor Right exhausted) = 3"
    by (simp add: exhausted_def started_eq game_eval fetchesFor_def)
  then have full: "MAX_AUDIO_RETRIES \<le> retries Right exhausted"
    by (simp add: MAX_AUDIO_RETRIES_def)
  have within: "\<forall>e\<in>set [AudioError Right, TogglePlay Right, AudioError Right]. withinRound e"
    by simp
  from exhausted_budget_no_request[OF full within] spent full show ?thesis by simp
qed

text \<open>
  C4. A failure is reported on a side whose fallback goes through (the controller is not
  disabled, the budget is not spent, no attempt is in flight, the element is mounted) and
  the resolver returns a replacement path. Then the path is assigned to that same
  element, which is paused and reloaded, and the other side's element is not touched;
  the element is played again exactly when the side was playing at the moment of the
  failure and the replacement became playable; the side ends up marked as playing only
  if, moreover, that \<^verbatim>\<open>play()\<close> resolved, so a replacement that fails to become playable
  leaves the side not playing; and the attempt is over, its single-flight flag clear.
  Whatever the state in which the awaited replacement reports its failure, the handler
  marks the side as not playing, clears the flag and returns.
\<close>

theorem replacement_swapped_and_resumed:
  assumes "\<not> disabled s" "retries sd s < MAX_AUDIO_RETRIES" "\<not> fallbackActive sd s"
    and "audioRef sd s = Some el" "path \<noteq> []"
  shows "audioRef sd (fst (fetchDone sd (playing sd s) (Body (Some path))
                            (fst (handleAudioError sd s)))) =
           Some (el\<lparr>src := path, paused := True, currentTime := 0, loads := Suc (loads el)\<rparr>) \<and>
         audioRef sd (fallbackEpisode sd (Body (Some path)) l ok s) =
           Some (el\<lparr>src := path, paused := \<not> (playing sd s \<and> l = BecamePlayable),
                   currentTime := 0, loads := Suc (loads el)\<rparr>) \<and>
         audioRef (other sd) (fallbackEpisode sd (Body (Some path)) l ok s) =
           audioRef (other sd) s \<and>
         playing sd (fallbackEpisode sd (Body (Some path)) l ok s) =
           (playing sd s \<and> l = BecamePlayable \<and> ok) \<and>
         \<not> fallbackActive sd (fallbackEpisode sd (Body (Some path)) l ok s) \<and>
         replacementSettled sd FailedToLoad s' =
           (setFallbackActive sd False (setPlaying sd False s'), False)"
  using assms(4,5) unfolding fallbackEpisode_def episode_started[OF assms(1-3)]
  by (cases sd; cases l; cases ok; cases "playing sd s")
     (simp_all add: fetchDone_def replacementSettled_def resumeSettled_def finish_def abandon_def
        side_defs el_load_def el_pause_def el_play_def Let_def)

theorem replacement_swapped_and_resumed_witness:
  "\<not> disabled leftPlaying \<and> retries Left leftPlaying < MAX_AUDIO_RETRIES \<and>
   \<not> fallbackActive Left leftPlaying \<and> playing Left leftPlaying \<and>
   audioRef Left leftPlaying =
     Some \<lparr>src = ''/audio/Real/Barack Obama/a.wav'', paused = False, currentTime = 0,
           preload = ''auto'', loads = 0\<rparr> \<and>
   audioRef Left (fallbackEpisode Left (Body (Some ''/audio/Real/Barack Obama/z.wav''))
                    BecamePlayable True leftPlaying) =
     Some \<lparr>src = ''/audio/Real/Barack Obama/z.wav'', paused = False, currentTime = 0,
           preload = ''auto'', loads = 1\<rparr> \<and>
   playing Left (fallbackEpisode Left (Body (Some ''/audio/Real/Barack Obama/z.wav''))
                   BecamePlayable True leftPlaying) \<and>
   audioRef Left (fallbackEpisode Left (Body (Some ''/audio/Real/Barack Obama/z.wav''))
                    FailedToLoad True leftPlaying) =
     Some \<lparr>src = ''/audio/Real/Barack Obama/z.wav'', paused = True, currentTime = 0,
           preload = ''auto'', loads = 1\<rparr> \<and>
   \<not> playing Left (fallbackEpisode Left (Body (Some ''/audio/Real/Barack Obama/z.wav''))
                     FailedToLoad True leftPlaying)"
proof -
  have h1: "\<not> disabled leftPlaying"
    and h2: "retries Left leftPlaying < MAX_AUDIO_RETRIES"
    and h3: "\<not> fallbackActive Left leftPlaying"
    and h4: "audioRef Left leftPlaying =
               Some \<lparr>src = ''/audio/Real/Barack Obama/a.wav'', paused = False, currentTime = 0,
                     preload = ''auto'', loads = 0\<rparr>"
    and h5: "playing Left leftPlaying"
    by (simp_all add: leftPlaying_def leftRequested_def started_eq game_eval)
  have h6: "''/audio/Real/Barack Obama/z.wav'' \<noteq> []" by simp
  from replacement_swapped_and_resumed[OF h1 h2 h3 h4 h6, of BecamePlayable True]
       replacement_swapped_and_resumed[OF h1 h2 h3 h4 h6, of FailedToLoad True]
       h1 h2 h3 h4 h5
  show ?thesis by simp
qed

text \<open>
  C5. In a round where no side is selected yet, no transition is under way and the round
  exists, the first selection is accepted: the side is recorded and one outcome is
  appended. After it, through every sequence of events that stays within the round, a
  further selection of either side leaves the whole state as it is: no outcome is
  appended, no timer is set, no playing or result state changes.
\<close>

theorem select_once:
  assumes "selected s = None" "\<not> transitioning s" "roundOf s = Some r"
    and "\<forall>e\<in>set es. withinRound e"
  shows "selected (step (Select a t) s) = Some a \<and>
         butlast (roundResults (step (Select a t) s)) = roundResults s \<and>
         step (Select b t') (run es (step (Select a t) s)) = run es (step (Select a t) s)"
proof -
  have st: "step (Select a t) s = handleSelect a t s"
    by (simp add: step_within)
  have "selected (step (Select a t) s) \<noteq> None"
    using select_accepted[OF assms(1-3), of a t] by (simp add: st)
  from run_selected[OF assms(4) this]
  have "step (Select b t') (run es (step (Select a t) s)) = run es (step (Select a t) s)"
    by (rule select_ignored)
  with select_accepted[OF assms(1-3), of a t] show ?thesis
    by (simp add: st)
qed

lemma started_open:
  "selected started = None \<and> \<not> transitioning started \<and> roundOf started = Some obama"
  by (simp add: started_eq roundOf_def)

theorem select_once_witness:
  "selected started = None \<and> \<not> transitioning started \<and> roundOf started = Some obama \<and>
   list_all withinRound [TogglePlay Right, Select Right 3900, ResultTimer 0 []] \<and>
   selected (step (Select Left 3400) started) = Some Left \<and>
   length (roundResults (step (Select Left 3400) started)) = 1 \<and>
   step (Select Right 4000)
     (run [TogglePlay Right, Select Right 3900, ResultTimer 0 []] (step (Select Left 3400) started)) =
   run [TogglePlay Right, Select Right 3900, ResultTimer 0 []] (step (Select Left 3400) started)"
proof -
  have h1: "selected started = None" and h2: "\<not> transitioning started"
    and h3: "roundOf started = Some obama"
    using started_open by simp_all
  have h4: "\<forall>e\<in>set [TogglePlay Right, Select Right 3900, ResultTimer 0 []]. withinRound e"
    by simp
  have one: "length (roundResults (step (Select Left 3400) started)) = 1"
    by (simp add: started_eq game_eval)
  from select_once[OF h1 h2 h3 h4, of Left 3400 Right 4000] h1 h2 h3 one
  show ?thesis by simp
qed

text \<open>
  C6. When a selection is accepted, the outcome log grows by one outcome at its end; that
  outcome is marked correct exactly when the selected side is the round's authentic
  position, and its \<^verbatim>\<open>userChoice\<close> is the selected side. In particular, with the authentic
  clip on the left, selecting the left gives an outcome that is correct and whose
  \<^verbatim>\<open>userChoice\<close> is the left.
\<close>

theorem outcome_correctness:
  assumes "selected s = None" "\<not> transitioning s" "roundOf s = Some r"
  shows "butlast (roundResults (handleSelect sd t s)) = roundResults s \<and>
         correct (last (roundResults (handleSelect sd t s))) = (sd = realPosition r) \<and>
         userChoice (last (roundResults (handleSelect sd t s))) = sd \<and>
         (realPosition r = Left \<longrightarrow>
            correct (last (roundResults (handleSelect Left t s))) \<and>
            userChoice (last (roundResults (handleSelect Left t s))) = Left)"
  using select_accepted[OF assms, of sd t] select_accepted[OF assms, of Left t] by simp

text \<open>The scenario of the claim: the authentic clip is on the left and the left is selected.\<close>

theorem outcome_correctness_witness:
  "selected started = None \<and> \<not> transitioning started \<and> roundOf started = Some obama \<and>
   realPosition obama = Left \<and>
   correct (last (roundResults (handleSelect Left 3400 started))) = True \<and>
   userChoice (last (roundResults (handleSelect Left 3400 started))) = Left \<and>
   correct (last (roundResults (handleSelect Right 3400 started))) = False"
proof -
  have h1: "selected started = None" and h2: "\<not> transitioning started"
    and h3: "roundOf started = Some obama"
    using started_open by simp_all
  have pos: "realPosition obama = Left" by (simp add: obama_def)
  from outcome_correctness[OF h1 h2 h3, of Left 3400]
       outcome_correctness[OF h1 h2 h3, of Right 3400] h1 h2 h3 pos
  show ?thesis by simp
qed

text \<open>
  C7. After any history of dependency changes, at the next one: in the state between the
  tear-down and the creation no preload object holds a source, so every buffer of the
  previous next-round has been discarded before any new one exists; the new run adds
  the buffers of its own next-round to those discarded objects and nothing else; and the
  buffers that hold a source afterwards are buffers of that one round only. In the game,
  after any sequence of events, the advance to the next round runs the preloader in just
  this way, with the same two consequences.
\<close>

theorem preloader_no_coexistence:
  "live (tornDown (preloadRun ds preloader0)) = [] \<and>
   objects (preloaderRerun rs cur (preloadRun ds preloader0)) =
     objects (tornDown (preloadRun ds preloader0)) @ nextBuffers rs cur \<and>
   live (preloaderRerun rs cur (preloadRun ds preloader0)) =
     filter (\<lambda>a. src a \<noteq> []) (nextBuffers rs cur) \<and>
   nextPreload (step (AdvanceTimer t) (run es game0)) =
     preloaderRerun (rounds (run es game0)) (currentRound (run es game0) + 1)
       (nextPreload (run es game0)) \<and>
   live (tornDown (nextPreload (run es game0))) = [] \<and>
   live (nextPreload (step (AdvanceTimer t) (run es game0))) =
     filter (\<lambda>a. src a \<noteq> [])
       (nextBuffers (rounds (run es game0)) (currentRound (run es game0) + 1))"
proof -
  have t: "tidy (preloadRun ds preloader0)"
    by (rule tidy_run[OF tidy0])
  have "tidy (nextPreload game0)"
    by (simp add: game0_def tidy0)
  then have g: "tidy (nextPreload (run es game0))"
    by (rule tidy_game_run)
  from live_tornDown[OF t] live_rerun[OF t] objects_rerun live_tornDown[OF g] live_rerun[OF g]
  show ?thesis
    by (simp add: advance_preload)
qed

theorem preloader_no_coexistence_witness:
  "map src (live (preloadRun [([obama, watson, freeman], 0)] preloader0)) =
     [''/audio/Cloned/Emma Watson/d.wav'', ''/audio/Real/Emma Watson/c.wav''] \<and>
   live (tornDown (preloadRun [([obama, watson, freeman], 0)] preloader0)) = [] \<and>
   map src (live (preloaderRerun [obama, watson, freeman] 1
                    (preloadRun [([obama, watson, freeman], 0)] preloader0))) =
     [''/audio/Real/Morgan Freeman/e.wav'', ''/audio/Cloned/Morgan Freeman/f.wav'']"
proof -
  have before: "map src (live (preloadRun [([obama, watson, freeman], 0)] preloader0)) =
     [''/audio/Cloned/Emma Watson/d.wav'', ''/audio/Real/Emma Watson/c.wav'']"
    by (simp add: preload_eval obama_def watson_def freeman_def)
  have after: "map src (filter (\<lambda>a. src a \<noteq> []) (nextBuffers [obama, watson, freeman] 1)) =
     [''/audio/Real/Morgan Freeman/e.wav'', ''/audio/Cloned/Morgan Freeman/f.wav'']"
    by (simp add: preload_eval obama_def watson_def freeman_def)
  from preloader_no_coexistence[of "[([obama, watson, freeman], 0)]" "[obama, watson, freeman]" 1]
       before after
  show ?thesis by simp
qed

text \<open>
  C8. While a side is selected or a transition is under way, a reported failure is a
  no-op: the handler returns at once without suspending, and the state afterwards is the
  state before, so no resolver request is made and the retry counter, the single-flight
  flag and the playing state are what they were.
\<close>

theorem failure_while_disabled_ignored:
  "selected s \<noteq> None \<or> transitioning s \<Longrightarrow>
     handleAudioError sd s = (s, False) \<and> step (AudioError sd) s = s"
  by (simp add: step_within handleAudioError_def disabled_def)

theorem failure_while_disabled_ignored_witness:
  "selected decided = Some Left \<and>
   handleAudioError Right decided = (decided, False) \<and>
   step (AudioError Right) decided = decided"
proof -
  have h: "selected decided = Some Left"
    by (simp add: decided_def started_eq game_eval)
  then have "selected decided \<noteq> None \<or> transitioning decided" by simp
  from failure_while_disabled_ignored[OF this, of Right] h show ?thesis by simp
qed

text \<open>
  C9, as amended. For a request with a celebrity and with category \<^verbatim>\<open>Real\<close> or \<^verbatim>\<open>Cloned\<close>,
  the endpoint answers with an error exactly when the celebrity's folder for that
  category is missing or holds no \<^verbatim>\<open>.wav\<close> file, and with a \<^verbatim>\<open>filePath\<close> otherwise; when
  the excluded file is the only \<^verbatim>\<open>.wav\<close> file there, the answer is the path of that same
  file. A request with any other category, or with none, is answered with status 400.
\<close>

theorem resolver_error_only_without_wav:
  assumes "celeb \<noteq> []" and "cat = ''Real'' \<or> cat = ''Cloned''"
  shows "isError (audioFiles disk u celeb (Some cat) exclude) = (wavsOf disk cat celeb = []) \<and>
         (wavsOf disk cat celeb = [b] \<and> basename ex = b \<and> 0 \<le> u \<and> u < 1 \<longrightarrow>
            audioFiles disk u celeb (Some cat) (Some ex) =
              FilePath (''/audio/'' @ cat @ ''/'' @ basename celeb @ ''/'' @ b)) \<and>
         (c \<noteq> Some ''Real'' \<and> c \<noteq> Some ''Cloned'' \<longrightarrow>
            audioFiles disk u celeb c exclude = BadCategory400)"
  using assms
  by (auto simp: audioFiles_def wavsOf_def Let_def candidates_only pick_single
      split: option.splits fsnode.splits)

theorem resolver_error_only_without_wav_witness:
  "''Obama'' \<noteq> [] \<and> wavsOf oneClip ''Real'' ''Obama'' = [''clip01.wav''] \<and>
   basename ''/audio/Real/Obama/clip01.wav'' = ''clip01.wav'' \<and>
   isError (audioFiles oneClip (1 / 2) ''Obama'' (Some ''Real'') None) = False \<and>
   audioFiles oneClip (1 / 2) ''Obama'' (Some ''Real'') (Some ''/audio/Real/Obama/clip01.wav'') =
     FilePath ''/audio/Real/Obama/clip01.wav''"
proof -
  have h1: "''Obama'' \<noteq> []" by simp
  have h2: "''Real'' = ''Real'' \<or> ''Real'' = ''Cloned''" by simp
  have only: "wavsOf oneClip ''Real'' ''Obama'' = [''clip01.wav'']"
    by (simp add: resolver_eval)
  have base: "basename ''/audio/Real/Obama/clip01.wav'' = ''clip01.wav''"
    by (simp add: basename_def)
  have "basename ''Obama'' = ''Obama''"
    by (simp add: basename_def)
  with resolver_error_only_without_wav[OF h1 h2, of oneClip "1 / 2" None "''clip01.wav''"
         "''/audio/Real/Obama/clip01.wav''"]
       resolver_error_only_without_wav[OF h1 h2, of oneClip "1 / 2"
         "Some ''/audio/Real/Obama/clip01.wav''" "''clip01.wav''" "''/audio/Real/Obama/clip01.wav''"]
       only base
  show ?thesis by simp
qed

text \<open>
  C9 as stated fails for a request whose category is neither \<^verbatim>\<open>Real\<close> nor \<^verbatim>\<open>Cloned\<close>: the
  folder of the requested category is there and holds a \<^verbatim>\<open>.wav\<close> file, and the answer is
  an error all the same (status 400).
\<close>

theorem resolver_rejects_other_category:
  "wavsOf oneClip ''Fake'' ''Obama'' = [''clip01.wav''] \<and>
   audioFiles oneClip (1 / 2) ''Obama'' (Some ''Fake'') None = BadCategory400 \<and>
   isError (audioFiles oneClip (1 / 2) ''Obama'' (Some ''Fake'') None)"
  by (simp add: resolver_eval)

text \<open>
  C10. When no round follows the active one (the next index is not below the number of
  rounds), the run of the preloader's effect leaves \<^verbatim>\<open>preloadRefs\<close> empty, creates no
  object beyond the torn-down ones, and no preload object holds a source afterwards.
\<close>

theorem last_round_no_buffers:
  assumes "cur + 1 \<ge> length rs"
  shows "preloadRefs (preloaderRerun rs cur (preloadRun ds preloader0)) = [] \<and>
         objects (preloaderRerun rs cur (preloadRun ds preloader0)) =
           objects (tornDown (preloadRun ds preloader0)) \<and>
         live (preloaderRerun rs cur (preloadRun ds preloader0)) = []"
proof -
  have t: "tidy (preloadRun ds preloader0)"
    by (rule tidy_run[OF tidy0])
  have n: "nextBuffers rs cur = []"
    using assms by (simp add: nextBuffers_def)
  from live_rerun[OF t, of rs cur] objects_rerun[of rs cur "preloadRun ds preloader0"] n assms
  show ?thesis by (simp add: preloaderRerun_def refs_effect)
qed

theorem last_round_no_buffers_witness:
  "1 + 1 \<ge> length [obama, watson] \<and>
   length (preloadRefs (preloadRun [([obama, watson], 0)] preloader0)) = 2 \<and>
   preloadRefs (preloaderRerun [obama, watson] 1 (preloadRun [([obama, watson], 0)] preloader0)) = [] \<and>
   live (preloaderRerun [obama, watson] 1 (preloadRun [([obama, watson], 0)] preloader0)) = []"
proof -
  have h: "(1::nat) + 1 \<ge> length [obama, watson]" by simp
  have two: "length (preloadRefs (preloadRun [([obama, watson], 0)] preloader0)) = 2"
    by (simp add: preload_eval)
  from last_round_no_buffers[OF h, of "[([obama, watson], 0)]"] h two show ?thesis by simp
qed

end
